theory Spec2Isabelle
  imports Complex_Main
begin

section \<open>JavaScript values\<close>

text \<open>
  The geocoding client (\<^verbatim>\<open>lib/geocode\<close>) receives its payloads as \<^verbatim>\<open>any\<close>: the
  TypeScript annotations are erased at run time, so a payload is whatever
  \<^verbatim>\<open>response.json()\<close> produced. Values are therefore modelled dynamically.

  A \<open>number\<close> is an IEEE double by its mathematical value: every finite double is a
  rational, so a statement about all \<open>Fin q\<close> covers all finite doubles. Negative zero is
  not distinguished from zero.

  A \<open>string\<close> is a list of 8-bit characters, read as the UTF-16 code units below 256
  (Latin-1), which covers every literal of the source.
\<close>

datatype number = Fin rat | NaN | PosInf | NegInf

datatype jsval =
    Undefined
  | Null
  | Bool bool
  | Num number
  | Str string
  | Arr "jsval list"
  | Obj "(string \<times> jsval) list"

text \<open>
  What a running program throws: \<^verbatim>\<open>new Error(message)\<close>, the engine's \<^verbatim>\<open>TypeError\<close>
  (a property read on \<^verbatim>\<open>null\<close>/\<^verbatim>\<open>undefined\<close>, a call of something that is not a
  function), the \<^verbatim>\<open>SyntaxError\<close> of \<^verbatim>\<open>response.json()\<close> on a body that is not JSON, and
  a rejection of \<^verbatim>\<open>fetch\<close> itself, with its name (\<^verbatim>\<open>AbortError\<close>, a network failure).
\<close>

datatype error =
    Error string
  | TypeError
  | SyntaxError
  | FetchRejected string

text \<open>
  The parts of the engine the source calls but that are not modelled here: parsing a
  string as a number (\<^verbatim>\<open>Number("4.6")\<close>) and printing a number that is not a small
  integer (\<^verbatim>\<open>String(4.6486)\<close>). They are parameters of every function that needs them.
\<close>

record js_runtime =
  parse_number :: "string \<Rightarrow> number"
  print_fraction :: "rat \<Rightarrow> string"

subsection \<open>Strings of numbers\<close>

definition digit :: "nat \<Rightarrow> char" where
  "digit d = ''0123456789'' ! (d mod 10)"

fun decimal :: "nat \<Rightarrow> string" where
  "decimal n = (if n < 10 then [digit n] else decimal (n div 10) @ [digit (n mod 10)])"

declare decimal.simps [simp del]

definition is_integer :: "rat \<Rightarrow> bool" where
  "is_integer q = (of_int \<lfloor>q\<rfloor> = q)"

text \<open>
  \<^verbatim>\<open>Number::toString\<close>: an integer below \<open>10\<^sup>2\<^sup>1\<close> in magnitude prints as its decimal
  digits; any other finite number is left to the engine.
\<close>

definition number_to_string :: "js_runtime \<Rightarrow> number \<Rightarrow> string" where
  "number_to_string rt n =
     (case n of
        NaN \<Rightarrow> ''NaN''
      | PosInf \<Rightarrow> ''Infinity''
      | NegInf \<Rightarrow> ''-Infinity''
      | Fin q \<Rightarrow>
          if is_integer q \<and> \<bar>q\<bar> < 10 ^ 21
          then (if q < 0 then ''-'' else '''') @ decimal (nat \<bar>\<lfloor>q\<rfloor>\<bar>)
          else print_fraction rt q)"

text \<open>
  \<^verbatim>\<open>Number.prototype.toFixed(6)\<close>, after ECMA-262: a non-finite number prints by
  \<^verbatim>\<open>ToString\<close>; the sign is split off; a magnitude of \<open>10\<^sup>2\<^sup>1\<close> or more prints by
  \<^verbatim>\<open>ToString\<close>; otherwise \<open>n\<close> is the integer nearest to \<open>x \<sqdot> 10\<^sup>6\<close> (the larger one on a
  tie), printed with at least seven digits and a point before the last six.
\<close>

definition toFixed6 :: "js_runtime \<Rightarrow> number \<Rightarrow> string" where
  "toFixed6 rt n =
     (case n of
        Fin q \<Rightarrow>
          (let s = (if q < 0 then ''-'' else ''''); x = \<bar>q\<bar> in
           if x \<ge> 10 ^ 21 then s @ number_to_string rt (Fin x)
           else
             (let m = decimal (nat \<lfloor>x * 10 ^ 6 + 1 / 2\<rfloor>);
                  m' = replicate (7 - length m) (CHR ''0'') @ m;
                  k = length m'
              in s @ take (k - 6) m' @ ''.'' @ drop (k - 6) m'))
      | _ \<Rightarrow> number_to_string rt n)"

subsection \<open>Conversions and property reads\<close>

text \<open>
  \<^verbatim>\<open>ToString\<close>, as a template literal and \<^verbatim>\<open>String(v)\<close> apply it. An array prints as
  its elements joined by commas, \<^verbatim>\<open>null\<close> and \<^verbatim>\<open>undefined\<close> elements as nothing. A parsed
  JSON object prints as \<^verbatim>\<open>[object Object]\<close>, unless it has a key \<^verbatim>\<open>toString\<close> of its own:
  that value is no function, and the conversion throws.
\<close>

fun to_string :: "js_runtime \<Rightarrow> jsval \<Rightarrow> error + string"
  and join_elements :: "js_runtime \<Rightarrow> jsval list \<Rightarrow> error + string"
  and element_string :: "js_runtime \<Rightarrow> jsval \<Rightarrow> error + string" where
  "to_string rt Undefined = Inr ''undefined''"
| "to_string rt Null = Inr ''null''"
| "to_string rt (Bool b) = Inr (if b then ''true'' else ''false'')"
| "to_string rt (Num n) = Inr (number_to_string rt n)"
| "to_string rt (Str s) = Inr s"
| "to_string rt (Arr xs) = join_elements rt xs"
| "to_string rt (Obj kvs) =
     (if ''toString'' \<in> fst ` set kvs then Inl TypeError else Inr ''[object Object]'')"
| "join_elements rt [] = Inr ''''"
| "join_elements rt [x] = element_string rt x"
| "join_elements rt (x # y # ys) =
     (case element_string rt x of
        Inl e \<Rightarrow> Inl e
      | Inr s \<Rightarrow>
          (case join_elements rt (y # ys) of
             Inl e \<Rightarrow> Inl e
           | Inr t \<Rightarrow> Inr (s @ '','' @ t)))"
| "element_string rt Undefined = Inr ''''"
| "element_string rt Null = Inr ''''"
| "element_string rt v = to_string rt v"

text \<open>
  \<^verbatim>\<open>v?.toString()\<close>: \<^verbatim>\<open>undefined\<close> when \<open>v\<close> is \<^verbatim>\<open>null\<close> or \<^verbatim>\<open>undefined\<close>, the method's
  result otherwise. On every other value the method agrees with \<^verbatim>\<open>ToString\<close>.
\<close>

definition opt_toString :: "js_runtime \<Rightarrow> jsval \<Rightarrow> error + jsval" where
  "opt_toString rt v =
     (case v of
        Undefined \<Rightarrow> Inr Undefined
      | Null \<Rightarrow> Inr Undefined
      | _ \<Rightarrow> (case to_string rt v of Inl e \<Rightarrow> Inl e | Inr s \<Rightarrow> Inr (Str s)))"

text \<open>
  \<^verbatim>\<open>Number(v)\<close>. An array or object is converted to a string first.
\<close>

definition to_number :: "js_runtime \<Rightarrow> jsval \<Rightarrow> error + number" where
  "to_number rt v =
     (case v of
        Undefined \<Rightarrow> Inr NaN
      | Null \<Rightarrow> Inr (Fin 0)
      | Bool b \<Rightarrow> Inr (Fin (if b then 1 else 0))
      | Num n \<Rightarrow> Inr n
      | Str s \<Rightarrow> Inr (parse_number rt s)
      | _ \<Rightarrow> (case to_string rt v of Inl e \<Rightarrow> Inl e | Inr s \<Rightarrow> Inr (parse_number rt s)))"

text \<open>Truthiness, as \<^verbatim>\<open>!v\<close> and \<^verbatim>\<open>if (v)\<close> test it.\<close>

definition truthy :: "jsval \<Rightarrow> bool" where
  "truthy v =
     (case v of
        Undefined \<Rightarrow> False
      | Null \<Rightarrow> False
      | Bool b \<Rightarrow> b
      | Num n \<Rightarrow> n \<noteq> NaN \<and> n \<noteq> Fin 0
      | Str s \<Rightarrow> s \<noteq> []
      | _ \<Rightarrow> True)"

text \<open>\<^verbatim>\<open>a ?? b\<close>.\<close>

definition nullish :: "jsval \<Rightarrow> bool" where
  "nullish v = (v = Undefined \<or> v = Null)"

definition coalesce :: "jsval \<Rightarrow> jsval \<Rightarrow> jsval" where
  "coalesce a b = (if nullish a then b else a)"

text \<open>
  \<^verbatim>\<open>JSON.parse\<close> keeps the last of several equal keys.
\<close>

definition lookup :: "(string \<times> jsval) list \<Rightarrow> string \<Rightarrow> jsval" where
  "lookup kvs k = (case map_of (rev kvs) k of None \<Rightarrow> Undefined | Some v \<Rightarrow> v)"

text \<open>
  \<^verbatim>\<open>v.name\<close>, for the names the source reads (\<^verbatim>\<open>status\<close>, \<^verbatim>\<open>predictions\<close>, \<^verbatim>\<open>results\<close>,
  \<^verbatim>\<open>place_id\<close>, \<^verbatim>\<open>description\<close>, \<^verbatim>\<open>geometry\<close>, \<^verbatim>\<open>location\<close>, \<^verbatim>\<open>lat\<close>, \<^verbatim>\<open>lng\<close>, \<^verbatim>\<open>lon\<close>,
  \<^verbatim>\<open>display_name\<close>, \<^verbatim>\<open>formatted_address\<close>, \<^verbatim>\<open>length\<close>): of these only \<^verbatim>\<open>length\<close> exists on
  a string or an array, and none on a number, a boolean or \<^verbatim>\<open>Object.prototype\<close>.
\<close>

definition get_prop :: "jsval \<Rightarrow> string \<Rightarrow> error + jsval" where
  "get_prop v name =
     (case v of
        Undefined \<Rightarrow> Inl TypeError
      | Null \<Rightarrow> Inl TypeError
      | Bool b \<Rightarrow> Inr Undefined
      | Num n \<Rightarrow> Inr Undefined
      | Str s \<Rightarrow> Inr (if name = ''length'' then Num (Fin (of_nat (length s))) else Undefined)
      | Arr xs \<Rightarrow> Inr (if name = ''length'' then Num (Fin (of_nat (length xs))) else Undefined)
      | Obj kvs \<Rightarrow> Inr (lookup kvs name))"

text \<open>\<^verbatim>\<open>v?.name\<close>.\<close>

definition opt_prop :: "jsval \<Rightarrow> string \<Rightarrow> jsval" where
  "opt_prop v name = (case get_prop v name of Inl e \<Rightarrow> Undefined | Inr w \<Rightarrow> w)"

text \<open>\<^verbatim>\<open>v[0]\<close>.\<close>

definition index0 :: "jsval \<Rightarrow> error + jsval" where
  "index0 v =
     (case v of
        Undefined \<Rightarrow> Inl TypeError
      | Null \<Rightarrow> Inl TypeError
      | Bool b \<Rightarrow> Inr Undefined
      | Num n \<Rightarrow> Inr Undefined
      | Str s \<Rightarrow> Inr (case s of [] \<Rightarrow> Undefined | c # _ \<Rightarrow> Str [c])
      | Arr xs \<Rightarrow> Inr (case xs of [] \<Rightarrow> Undefined | x # _ \<Rightarrow> x)
      | Obj kvs \<Rightarrow> Inr (lookup kvs ''0''))"

text \<open>
  \<^verbatim>\<open>String.prototype.trim\<close> removes white space and line terminators at both ends; below
  256 these are TAB, LF, VT, FF, CR, SPACE and NBSP.
\<close>

definition is_space :: "char \<Rightarrow> bool" where
  "is_space c = (of_char c \<in> {9, 10, 11, 12, 13, 32, 160 :: nat})"

definition trim :: "string \<Rightarrow> string" where
  "trim s = rev (dropWhile is_space (rev (dropWhile is_space s)))"

text \<open>
  \<^verbatim>\<open>xs.slice(0, limit)\<close> on an array: the end is truncated towards zero, counted from
  the back when negative, and clamped to the array.
\<close>

definition slice_to :: "'a list \<Rightarrow> number \<Rightarrow> 'a list" where
  "slice_to xs limit =
     (case limit of
        NaN \<Rightarrow> []
      | PosInf \<Rightarrow> xs
      | NegInf \<Rightarrow> []
      | Fin q \<Rightarrow>
          (let k = (if q < 0 then \<lceil>q\<rceil> else \<lfloor>q\<rfloor>) in
           if k < 0 then take (nat (int (length xs) + k)) xs else take (nat k) xs))"

section \<open>The geocoding client\<close>

subsection \<open>Data\<close>

datatype Provider = Nominatim | Google

text \<open>
  \<^verbatim>\<open>GeocodeResult\<close>. The field types of the interface are erased at run time and the
  adapters copy provider values into the fields unchecked, so every field holds a
  \<open>jsval\<close>; \<open>id'\<close> is the field \<^verbatim>\<open>id\<close>.
\<close>

record GeocodeResult =
  id' :: jsval
  label :: jsval
  lat :: jsval
  lng :: jsval
  raw :: jsval
  provider :: Provider
  placeId :: jsval

text \<open>
  \<^verbatim>\<open>import.meta.env\<close> and the one fact read from \<^verbatim>\<open>window\<close>: \<open>window_origin\<close> is
  \<^verbatim>\<open>window.location.origin\<close>, absent when there is no window or no location.
\<close>

record env =
  VITE_GOOGLE_KEY :: "string option"
  VITE_NOMINATIM_EMAIL :: "string option"
  window_origin :: "string option"

text \<open>
  A request is its URL, its query parameters before percent-encoding, in the order
  \<^verbatim>\<open>URLSearchParams\<close> holds them, and its headers. Every request of the source is a GET.
\<close>

record request =
  url :: string
  params :: "(string \<times> string) list"
  headers :: "(string \<times> string) list"

text \<open>
  A response is its HTTP status and what \<^verbatim>\<open>response.json()\<close> gives: \<open>None\<close> when the
  body is not JSON.
\<close>

record response =
  status :: nat
  body :: "jsval option"

definition ok :: "response \<Rightarrow> bool" where
  "ok r = (200 \<le> status r \<and> status r \<le> 299)"

text \<open>
  The network answers the \<open>n\<close>-th request of a run (counted from 0) with a response, or
  the \<^verbatim>\<open>fetch\<close> rejects. The state of a run is the list of requests issued so far.
\<close>

type_synonym network = "nat \<Rightarrow> request \<Rightarrow> error + response"

definition fetch :: "network \<Rightarrow> request list \<Rightarrow> request \<Rightarrow> (error + response) \<times> request list" where
  "fetch net sent req = (net (length sent) req, sent @ [req])"

subsection \<open>Constants and messages\<close>

definition a_acute :: string where "a_acute = [CHR 0xE1]"
definition i_acute :: string where "i_acute = [CHR 0xED]"
definition o_acute :: string where "o_acute = [CHR 0xF3]"
definition u_acute :: string where "u_acute = [CHR 0xFA]"

definition NOMINATIM_BASE :: string where
  "NOMINATIM_BASE = ''https://nominatim.openstreetmap.org''"

definition NOMINATIM_VIEWBOX :: string where
  "NOMINATIM_VIEWBOX = ''-74.25,4.47,-73.99,4.90''"

definition GOOGLE_AUTOCOMPLETE_URL :: string where
  "GOOGLE_AUTOCOMPLETE_URL = ''https://maps.googleapis.com/maps/api/place/autocomplete/json''"

definition GOOGLE_GEOCODE_URL :: string where
  "GOOGLE_GEOCODE_URL = ''https://maps.googleapis.com/maps/api/geocode/json''"

text \<open>
  The \<^verbatim>\<open>locationbias\<close> parameter, \<^verbatim>\<open>GOOGLE_BOUNDS\<close> printed into its template.
\<close>

definition GOOGLE_LOCATIONBIAS :: string where
  "GOOGLE_LOCATIONBIAS = ''rectangle:4.47,-74.25|4.9,-73.99''"

definition DEFAULT_LIMIT :: number where
  "DEFAULT_LIMIT = Fin 5"

definition msg_no_email :: string where
  "msg_no_email = ''Falta configurar VITE_NOMINATIM_EMAIL para usar Nominatim.''"

definition msg_nominatim_429 :: string where
  "msg_nominatim_429 =
     ''Se alcanz'' @ o_acute @ '' el l'' @ i_acute @ ''mite de consultas de Nominatim. Intenta m''
       @ a_acute @ ''s tarde.''"

definition msg_nominatim_failed :: string where
  "msg_nominatim_failed = ''No se pudo buscar la direcci'' @ o_acute @ ''n con Nominatim.''"

definition msg_no_key :: string where
  "msg_no_key = ''Falta configurar VITE_GOOGLE_KEY para usar Google Maps.''"

definition msg_autocomplete_failed :: string where
  "msg_autocomplete_failed = ''No se pudo obtener sugerencias de Google Places.''"

definition msg_detail_failed :: string where
  "msg_detail_failed = ''No se pudo geocodificar la direcci'' @ o_acute @ ''n seleccionada.''"

subsection \<open>Provider resolution and configuration\<close>

text \<open>An environment variable is truthy when it is set to a non-empty string.\<close>

definition configured :: "string option \<Rightarrow> bool" where
  "configured v = (case v of None \<Rightarrow> False | Some s \<Rightarrow> s \<noteq> [])"

definition resolveProvider :: "env \<Rightarrow> Provider option \<Rightarrow> Provider" where
  "resolveProvider ev preferred =
     (case preferred of
        Some p \<Rightarrow> p
      | None \<Rightarrow> if configured (VITE_GOOGLE_KEY ev) then Google else Nominatim)"

definition getNominatimEmail :: "env \<Rightarrow> error + string" where
  "getNominatimEmail ev =
     (case VITE_NOMINATIM_EMAIL ev of
        None \<Rightarrow> Inl (Error msg_no_email)
      | Some email \<Rightarrow> if email = [] then Inl (Error msg_no_email) else Inr email)"

definition buildUserAgent :: "string \<Rightarrow> string" where
  "buildUserAgent email = ''GeoBogota/1.0 ('' @ email @ '')''"

text \<open>
  \<^verbatim>\<open>encodeQuery\<close> skips the parameters that are \<^verbatim>\<open>undefined\<close> and sets the others to
  their \<^verbatim>\<open>String(value)\<close>.
\<close>

fun encodeQuery :: "js_runtime \<Rightarrow> (string \<times> jsval) list \<Rightarrow> error + (string \<times> string) list" where
  "encodeQuery rt [] = Inr []"
| "encodeQuery rt ((k, v) # ps) =
     (if v = Undefined then encodeQuery rt ps
      else
        (case to_string rt v of
           Inl e \<Rightarrow> Inl e
         | Inr s \<Rightarrow>
             (case encodeQuery rt ps of
                Inl e \<Rightarrow> Inl e
              | Inr qs \<Rightarrow> Inr ((k, s) # qs))))"

text \<open>The identification headers of both free-provider calls.\<close>

definition nominatim_headers :: "env \<Rightarrow> string \<Rightarrow> (string \<times> string) list" where
  "nominatim_headers ev email =
     [(''User-Agent'', buildUserAgent email), (''Accept-Language'', ''es'')]
     @ (case window_origin ev of None \<Rightarrow> [] | Some origin \<Rightarrow> [(''Referer'', origin)])
     @ [(''From'', email)]"

text \<open>\<^verbatim>\<open>xs.map(f)\<close> with an \<open>f\<close> that may throw: the first throw ends the loop.\<close>

fun map_result :: "('a \<Rightarrow> error + 'b) \<Rightarrow> 'a list \<Rightarrow> error + 'b list" where
  "map_result f [] = Inr []"
| "map_result f (x # xs) =
     (case f x of
        Inl e \<Rightarrow> Inl e
      | Inr y \<Rightarrow>
          (case map_result f xs of
             Inl e \<Rightarrow> Inl e
           | Inr ys \<Rightarrow> Inr (y # ys)))"

text \<open>
  \<^verbatim>\<open>payload.map(f)\<close> on a value of type \<^verbatim>\<open>any\<close>: only an array has the method.
\<close>

definition array_map :: "(jsval \<Rightarrow> error + 'b) \<Rightarrow> jsval \<Rightarrow> error + 'b list" where
  "array_map f v = (case v of Arr xs \<Rightarrow> map_result f xs | _ \<Rightarrow> Inl TypeError)"

subsection \<open>Free provider\<close>

text \<open>
  One element of \<^verbatim>\<open>payload.map\<close> in \<^verbatim>\<open>searchWithNominatim\<close>: the identifier is
  \<^verbatim>\<open>item.place_id?.toString()\<close>, or the template \<^verbatim>\<open>`${item.lat},${item.lon}`\<close> when that
  is \<^verbatim>\<open>undefined\<close>.
\<close>

definition coordinate_id :: "js_runtime \<Rightarrow> jsval \<Rightarrow> jsval \<Rightarrow> error + jsval" where
  "coordinate_id rt la lo =
     (case to_string rt la of
        Inl e \<Rightarrow> Inl e
      | Inr a \<Rightarrow>
          (case to_string rt lo of
             Inl e \<Rightarrow> Inl e
           | Inr b \<Rightarrow> Inr (Str (a @ '','' @ b))))"

definition nominatim_id :: "js_runtime \<Rightarrow> jsval \<Rightarrow> error + jsval" where
  "nominatim_id rt item =
     (case get_prop item ''place_id'' of
        Inl e \<Rightarrow> Inl e
      | Inr pid \<Rightarrow>
          (case opt_toString rt pid of
             Inl e \<Rightarrow> Inl e
           | Inr s \<Rightarrow>
               if nullish s
               then coordinate_id rt (opt_prop item ''lat'') (opt_prop item ''lon'')
               else Inr s))"

definition nominatim_item :: "js_runtime \<Rightarrow> jsval \<Rightarrow> error + GeocodeResult" where
  "nominatim_item rt item =
     (case nominatim_id rt item of
        Inl e \<Rightarrow> Inl e
      | Inr i \<Rightarrow>
          (case to_number rt (opt_prop item ''lat'') of
             Inl e \<Rightarrow> Inl e
           | Inr la \<Rightarrow>
               (case to_number rt (opt_prop item ''lon'') of
                  Inl e \<Rightarrow> Inl e
                | Inr lo \<Rightarrow>
                    Inr \<lparr>id' = i, label = opt_prop item ''display_name'', lat = Num la,
                         lng = Num lo, raw = item, provider = Nominatim,
                         placeId = Undefined\<rparr>)))"

definition searchWithNominatim ::
  "js_runtime \<Rightarrow> env \<Rightarrow> network \<Rightarrow> request list \<Rightarrow> string \<Rightarrow> number
     \<Rightarrow> (error + GeocodeResult list) \<times> request list" where
  "searchWithNominatim rt ev net sent query limit =
     (case getNominatimEmail ev of
        Inl e \<Rightarrow> (Inl e, sent)
      | Inr email \<Rightarrow>
          (case encodeQuery rt
                  [(''q'', Str query), (''format'', Str ''jsonv2''),
                   (''addressdetails'', Num (Fin 1)), (''limit'', Num limit),
                   (''viewbox'', Str NOMINATIM_VIEWBOX), (''bounded'', Num (Fin 1)),
                   (''city'', Str (''Bogot'' @ a_acute)), (''country'', Str ''Colombia''),
                   (''dedupe'', Num (Fin 1)), (''polygon_geojson'', Num (Fin 0)),
                   (''extratags'', Num (Fin 0))] of
             Inl e \<Rightarrow> (Inl e, sent)
           | Inr searchParams \<Rightarrow>
               (case fetch net sent
                       \<lparr>url = NOMINATIM_BASE @ ''/search'', params = searchParams,
                        headers = nominatim_headers ev email\<rparr> of
                  (Inl e, sent') \<Rightarrow> (Inl e, sent')
                | (Inr resp, sent') \<Rightarrow>
                    if \<not> ok resp then
                      (if status resp = 429 then (Inl (Error msg_nominatim_429), sent')
                       else (Inl (Error msg_nominatim_failed), sent'))
                    else
                      (case body resp of
                         None \<Rightarrow> (Inl SyntaxError, sent')
                       | Some payload \<Rightarrow> (array_map (nominatim_item rt) payload, sent')))))"

definition reverseWithNominatim ::
  "js_runtime \<Rightarrow> env \<Rightarrow> network \<Rightarrow> request list \<Rightarrow> number \<Rightarrow> number
     \<Rightarrow> (error + GeocodeResult option) \<times> request list" where
  "reverseWithNominatim rt ev net sent la lo =
     (case getNominatimEmail ev of
        Inl e \<Rightarrow> (Inl e, sent)
      | Inr email \<Rightarrow>
          (case encodeQuery rt
                  [(''lat'', Num la), (''lon'', Num lo), (''format'', Str ''jsonv2''),
                   (''addressdetails'', Num (Fin 1))] of
             Inl e \<Rightarrow> (Inl e, sent)
           | Inr searchParams \<Rightarrow>
               (case fetch net sent
                       \<lparr>url = NOMINATIM_BASE @ ''/reverse'', params = searchParams,
                        headers = nominatim_headers ev email\<rparr> of
                  (Inl e, sent') \<Rightarrow> (Inl e, sent')
                | (Inr resp, sent') \<Rightarrow>
                    if \<not> ok resp then (Inr None, sent')
                    else
                      (case body resp of
                         None \<Rightarrow> (Inl SyntaxError, sent')
                       | Some payload \<Rightarrow>
                           if \<not> truthy payload then (Inr None, sent')
                           else
                             (case nominatim_id rt payload of
                                Inl e \<Rightarrow> (Inl e, sent')
                              | Inr i \<Rightarrow>
                                  (case to_number rt
                                          (coalesce (opt_prop payload ''lat'') (Num la)) of
                                     Inl e \<Rightarrow> (Inl e, sent')
                                   | Inr la' \<Rightarrow>
                                       (case to_number rt
                                               (coalesce (opt_prop payload ''lon'') (Num lo)) of
                                          Inl e \<Rightarrow> (Inl e, sent')
                                        | Inr lo' \<Rightarrow>
                                            (Inr (Some
                                               \<lparr>id' = i,
                                                label =
                                                  coalesce (opt_prop payload ''display_name'')
                                                    (Str (toFixed6 rt la @ '', ''
                                                            @ toFixed6 rt lo)),
                                                lat = Num la', lng = Num lo', raw = payload,
                                                provider = Nominatim,
                                                placeId = Undefined\<rparr>), sent'))))))))"

subsection \<open>Commercial provider\<close>

definition googleStatusMessage :: "jsval \<Rightarrow> string" where
  "googleStatusMessage st =
     (if st = Str ''ZERO_RESULTS'' then
        ''No se encontraron resultados en Google para esa b'' @ u_acute @ ''squeda.''
      else if st = Str ''OVER_QUERY_LIMIT'' then
        ''Se alcanz'' @ o_acute @ '' el l'' @ i_acute @ ''mite de cuota de Google Maps.''
      else if st = Str ''REQUEST_DENIED'' then
        ''La API de Google Maps rechaz'' @ o_acute
          @ '' la solicitud. Revisa la clave y restricciones.''
      else if st = Str ''INVALID_REQUEST'' then
        ''Solicitud inv'' @ a_acute @ ''lida enviada a Google Maps.''
      else if st = Str ''UNKNOWN_ERROR'' then
        ''Error desconocido en la API de Google Maps. Intenta de nuevo.''
      else ''No se pudo completar la petici'' @ o_acute @ ''n con Google Maps.'')"

text \<open>
  The function mapped over the retained predictions is asynchronous. Up to its first
  \<^verbatim>\<open>await\<close> it runs inside the \<^verbatim>\<open>map\<close>: it reads \<^verbatim>\<open>prediction.place_id\<close>, encodes the
  parameters and calls \<^verbatim>\<open>fetch\<close>. \<open>detail_request\<close> is that part: the request, or what it
  throws before any request is made.
\<close>

definition detail_request :: "js_runtime \<Rightarrow> string \<Rightarrow> jsval \<Rightarrow> error + request" where
  "detail_request rt apiKey prediction =
     (case get_prop prediction ''place_id'' of
        Inl e \<Rightarrow> Inl e
      | Inr pid \<Rightarrow>
          (case encodeQuery rt [(''place_id'', pid), (''key'', Str apiKey)] of
             Inl e \<Rightarrow> Inl e
           | Inr detailParams \<Rightarrow>
               Inr \<lparr>url = GOOGLE_GEOCODE_URL, params = detailParams, headers = []\<rparr>))"

text \<open>
  \<open>detail_result\<close> is the rest of the function, from the outcome of its \<^verbatim>\<open>fetch\<close> to
  the candidate or the error its promise settles with.
\<close>

definition detail_result :: "jsval \<Rightarrow> error + response \<Rightarrow> error + GeocodeResult" where
  "detail_result prediction outcome =
     (case outcome of
        Inl e \<Rightarrow> Inl e
      | Inr geocodeResponse \<Rightarrow>
          if \<not> ok geocodeResponse then Inl (Error msg_detail_failed)
          else
            (case body geocodeResponse of
               None \<Rightarrow> Inl SyntaxError
             | Some geocodePayload \<Rightarrow>
                 (case get_prop geocodePayload ''status'' of
                    Inl e \<Rightarrow> Inl e
                  | Inr st \<Rightarrow>
                      if st \<noteq> Str ''OK''
                         \<or> \<not> truthy (opt_prop (opt_prop geocodePayload ''results'') ''length'')
                      then Inl (Error (googleStatusMessage st))
                      else
                        (case index0 (opt_prop geocodePayload ''results'') of
                           Inl e \<Rightarrow> Inl e
                         | Inr result \<Rightarrow>
                             (case get_prop result ''geometry'' of
                                Inl e \<Rightarrow> Inl e
                              | Inr geometry \<Rightarrow>
                                  (case get_prop geometry ''location'' of
                                     Inl e \<Rightarrow> Inl e
                                   | Inr location \<Rightarrow>
                                       (case get_prop location ''lat'' of
                                          Inl e \<Rightarrow> Inl e
                                        | Inr la \<Rightarrow>
                                            (case get_prop location ''lng'' of
                                               Inl e \<Rightarrow> Inl e
                                             | Inr lo \<Rightarrow>
                                                 Inr \<lparr>id' = opt_prop prediction ''place_id'',
                                                      label = opt_prop prediction ''description'',
                                                      lat = la, lng = lo, raw = result,
                                                      provider = Google,
                                                      placeId =
                                                        opt_prop prediction ''place_id''\<rparr>))))))))"

text \<open>
  \<^verbatim>\<open>geocodePromises\<close>, the \<^verbatim>\<open>map\<close> over the retained predictions: every function called
  in it issues its request before the next one starts, so all requests are made, in
  prediction order,
  before any response is looked at. The list returned holds what each promise settles
  with.
\<close>

fun geocodePromises ::
  "js_runtime \<Rightarrow> network \<Rightarrow> request list \<Rightarrow> string \<Rightarrow> jsval list
     \<Rightarrow> (error + GeocodeResult) list \<times> request list" where
  "geocodePromises rt net sent apiKey [] = ([], sent)"
| "geocodePromises rt net sent apiKey (prediction # rest) =
     (case detail_request rt apiKey prediction of
        Inl e \<Rightarrow>
          (case geocodePromises rt net sent apiKey rest of
             (settled, sent') \<Rightarrow> (Inl e # settled, sent'))
      | Inr req \<Rightarrow>
          (case fetch net sent req of
             (outcome, sent1) \<Rightarrow>
               (case geocodePromises rt net sent1 apiKey rest of
                  (settled, sent') \<Rightarrow> (detail_result prediction outcome # settled, sent'))))"

text \<open>
  \<^verbatim>\<open>Promise.all\<close>: fulfilled with the values in the order of the promises when all are
  fulfilled, rejected with the reason of the promise that rejects first in time. The
  order in which the promises settle is the schedule: the indices named by \<open>sched\<close>, in
  that order, then every promise in index order (a promise settles once, so a repeated
  or late index changes nothing). \<open>first_rejection\<close> is the index of the promise that
  rejects first in that order, if any does.
\<close>

definition first_rejection :: "nat list \<Rightarrow> (error + 'a) list \<Rightarrow> nat option" where
  "first_rejection sched settled =
     find (\<lambda>i. i < length settled \<and> isl (settled ! i)) (sched @ [0..<length settled])"

definition promise_all :: "nat list \<Rightarrow> (error + 'a) list \<Rightarrow> error + 'a list" where
  "promise_all sched settled =
     (case first_rejection sched settled of
        Some i \<Rightarrow> Inl (projl (settled ! i))
      | None \<Rightarrow> Inr (map projr settled))"

definition searchWithGoogle ::
  "js_runtime \<Rightarrow> env \<Rightarrow> network \<Rightarrow> request list \<Rightarrow> nat list \<Rightarrow> string \<Rightarrow> number
     \<Rightarrow> (error + GeocodeResult list) \<times> request list" where
  "searchWithGoogle rt ev net sent sched query limit =
     (case VITE_GOOGLE_KEY ev of
        None \<Rightarrow> (Inl (Error msg_no_key), sent)
      | Some apiKey \<Rightarrow>
          if apiKey = [] then (Inl (Error msg_no_key), sent)
          else
            (case encodeQuery rt
                    [(''input'', Str query), (''language'', Str ''es''),
                     (''types'', Str ''geocode''), (''key'', Str apiKey),
                     (''components'', Str ''country:CO''),
                     (''locationbias'', Str GOOGLE_LOCATIONBIAS)] of
               Inl e \<Rightarrow> (Inl e, sent)
             | Inr ps \<Rightarrow>
                 (case fetch net sent
                         \<lparr>url = GOOGLE_AUTOCOMPLETE_URL, params = ps, headers = []\<rparr> of
                    (Inl e, sent1) \<Rightarrow> (Inl e, sent1)
                  | (Inr autocompleteResponse, sent1) \<Rightarrow>
                      if \<not> ok autocompleteResponse then
                        (Inl (Error msg_autocomplete_failed), sent1)
                      else
                        (case body autocompleteResponse of
                           None \<Rightarrow> (Inl SyntaxError, sent1)
                         | Some autocompletePayload \<Rightarrow>
                             (case get_prop autocompletePayload ''status'' of
                                Inl e \<Rightarrow> (Inl e, sent1)
                              | Inr st \<Rightarrow>
                                  if st \<noteq> Str ''OK'' \<and> st \<noteq> Str ''ZERO_RESULTS'' then
                                    (Inl (Error (googleStatusMessage st)), sent1)
                                  else
                                    (let predictions =
                                           coalesce (opt_prop autocompletePayload ''predictions'')
                                             (Arr [])
                                     in
                                       if \<not> truthy (opt_prop predictions ''length'') then
                                         (Inr [], sent1)
                                       else
                                         (case predictions of
                                            Arr items \<Rightarrow>
                                              (case geocodePromises rt net sent1 apiKey
                                                      (slice_to items limit) of
                                                 (settled, sent2) \<Rightarrow>
                                                   (promise_all sched settled, sent2))
                                          | _ \<Rightarrow> (Inl TypeError, sent1))))))))"

definition reverseWithGoogle ::
  "js_runtime \<Rightarrow> env \<Rightarrow> network \<Rightarrow> request list \<Rightarrow> number \<Rightarrow> number
     \<Rightarrow> (error + GeocodeResult option) \<times> request list" where
  "reverseWithGoogle rt ev net sent la lo =
     (case VITE_GOOGLE_KEY ev of
        None \<Rightarrow> (Inl (Error msg_no_key), sent)
      | Some apiKey \<Rightarrow>
          if apiKey = [] then (Inl (Error msg_no_key), sent)
          else
            (let latlng = number_to_string rt la @ '','' @ number_to_string rt lo in
             case encodeQuery rt
                    [(''latlng'', Str latlng), (''key'', Str apiKey), (''language'', Str ''es'')] of
               Inl e \<Rightarrow> (Inl e, sent)
             | Inr ps \<Rightarrow>
                 (case fetch net sent \<lparr>url = GOOGLE_GEOCODE_URL, params = ps, headers = []\<rparr> of
                    (Inl e, sent') \<Rightarrow> (Inl e, sent')
                  | (Inr resp, sent') \<Rightarrow>
                      if \<not> ok resp then (Inr None, sent')
                      else
                        (case body resp of
                           None \<Rightarrow> (Inl SyntaxError, sent')
                         | Some payload \<Rightarrow>
                             (case get_prop payload ''status'' of
                                Inl e \<Rightarrow> (Inl e, sent')
                              | Inr st \<Rightarrow>
                                  if st \<noteq> Str ''OK''
                                     \<or> \<not> truthy (opt_prop (opt_prop payload ''results'') ''length'')
                                  then (Inr None, sent')
                                  else
                                    (case index0 (opt_prop payload ''results'') of
                                       Inl e \<Rightarrow> (Inl e, sent')
                                     | Inr result \<Rightarrow>
                                         (case get_prop result ''place_id'' of
                                            Inl e \<Rightarrow> (Inl e, sent')
                                          | Inr pid \<Rightarrow>
                                              (Inr (Some
                                                 \<lparr>id' = coalesce pid (Str latlng),
                                                  label = opt_prop result ''formatted_address'',
                                                  lat = Num la, lng = Num lo, raw = result,
                                                  provider = Google, placeId = pid\<rparr>),
                                               sent'))))))))"

subsection \<open>The two operations\<close>

text \<open>
  \<^verbatim>\<open>searchAddress(query, {provider, signal, limit})\<close>. The options are the preferred
  provider and the limit, each possibly absent; the abort signal acts through the
  network, which may reject a \<^verbatim>\<open>fetch\<close>. \<open>sched\<close> is the order in which the detail
  responses of the commercial provider arrive.
\<close>

definition searchAddress ::
  "js_runtime \<Rightarrow> env \<Rightarrow> network \<Rightarrow> request list \<Rightarrow> nat list \<Rightarrow> string
     \<Rightarrow> Provider option \<Rightarrow> number option
     \<Rightarrow> (error + GeocodeResult list) \<times> request list" where
  "searchAddress rt ev net sent sched query preferred limit_opt =
     (let limit = (case limit_opt of None \<Rightarrow> DEFAULT_LIMIT | Some l \<Rightarrow> l);
          prov = resolveProvider ev preferred
      in
        if trim query = [] then (Inr [], sent)
        else if prov = Google then searchWithGoogle rt ev net sent sched query limit
        else searchWithNominatim rt ev net sent query limit)"

definition reverseGeocode ::
  "js_runtime \<Rightarrow> env \<Rightarrow> network \<Rightarrow> request list \<Rightarrow> number \<Rightarrow> number \<Rightarrow> Provider option
     \<Rightarrow> (error + GeocodeResult option) \<times> request list" where
  "reverseGeocode rt ev net sent la lo preferred =
     (let prov = resolveProvider ev preferred in
        if prov = Google then reverseWithGoogle rt ev net sent la lo
        else reverseWithNominatim rt ev net sent la lo)"

section \<open>Identifiers\<close>



section \<open>Sample runs\<close>

text \<open>
  Concrete engines, environments, networks and payloads, on which the theorems below are
  evaluated. The engine stub parses no string and prints no fraction.
\<close>

definition rt0 :: js_runtime where
  "rt0 = \<lparr>parse_number = (\<lambda>s. NaN), print_fraction = (\<lambda>q. ''?'')\<rparr>"

definition env_none :: env where
  "env_none = \<lparr>VITE_GOOGLE_KEY = None, VITE_NOMINATIM_EMAIL = None, window_origin = None\<rparr>"

definition env_both :: env where
  "env_both =
     \<lparr>VITE_GOOGLE_KEY = Some ''key-1'', VITE_NOMINATIM_EMAIL = Some ''ops@example.org'',
      window_origin = Some ''https://example.org''\<rparr>"

definition net_down :: network where
  "net_down n req = Inl (FetchRejected ''TypeError'')"

text \<open>
  The doubles the literals \<^verbatim>\<open>4.6486\<close> and \<^verbatim>\<open>-74.0628\<close> denote, as fractions in lowest
  terms (denominators \<open>2\<^sup>4\<^sup>9\<close> and \<open>2\<^sup>4\<^sup>6\<close>).
\<close>

definition double_4_6486 :: rat where
  "double_4_6486 = 2616929153474311 / 562949953421312"

definition double_m74_0628 :: rat where
  "double_m74_0628 = - 5211706226281493 / 70368744177664"

definition net_always :: "response \<Rightarrow> network" where
  "net_always resp n req = Inr resp"

definition resp_404 :: response where
  "resp_404 = \<lparr>status = 404, body = None\<rparr>"

definition resp_200 :: "jsval \<Rightarrow> response" where
  "resp_200 payload = \<lparr>status = 200, body = Some payload\<rparr>"


definition google_zero_results :: jsval where
  "google_zero_results = Obj [(''status'', Str ''ZERO_RESULTS''), (''results'', Arr [])]"

definition google_over_quota :: jsval where
  "google_over_quota = Obj [(''status'', Str ''OVER_QUERY_LIMIT''), (''results'', Arr [])]"

definition google_place :: "string \<Rightarrow> string \<Rightarrow> jsval" where
  "google_place pid address =
     Obj [(''place_id'', Str pid), (''formatted_address'', Str address),
          (''geometry'',
             Obj [(''location'', Obj [(''lat'', Num (Fin (93 / 20))), (''lng'', Num (Fin (- 1481 / 20)))])])]"

definition google_geocoded :: "jsval list \<Rightarrow> jsval" where
  "google_geocoded results = Obj [(''status'', Str ''OK''), (''results'', Arr results)]"

definition resp_500 :: response where
  "resp_500 = \<lparr>status = 500, body = None\<rparr>"

definition google_prediction :: "string \<Rightarrow> string \<Rightarrow> jsval" where
  "google_prediction pid description =
     Obj [(''description'', Str description), (''place_id'', Str pid)]"

definition three_predictions :: jsval where
  "three_predictions =
     Obj [(''status'', Str ''OK''),
          (''predictions'',
             Arr [google_prediction ''ChIJ-a'' ''Carrera 7 #72-41, Bogota'',
                  google_prediction ''ChIJ-b'' ''Carrera 7 #72-13, Bogota'',
                  google_prediction ''ChIJ-c'' ''Carrera 7 #72-64, Bogota''])]"

text \<open>
  A commercial provider: request 0 is answered with the given predictions, the requests
  listed in \<open>failing\<close> with HTTP 500, and any other request with the geocoding of the
  \<^verbatim>\<open>place_id\<close> it asks for.
\<close>

definition google_net :: "jsval \<Rightarrow> nat list \<Rightarrow> network" where
  "google_net predictions failing n req =
     (if n = 0 then Inr (resp_200 predictions)
      else if n \<in> set failing then Inr resp_500
      else
        (case map_of (params req) ''place_id'' of
           None \<Rightarrow> Inr resp_404
         | Some pid \<Rightarrow> Inr (resp_200 (google_geocoded [google_place pid ''Bogota'']))))"

text \<open>The requests and candidates of the sample searches.\<close>

definition detail_req :: "string \<Rightarrow> request" where
  "detail_req pid =
     \<lparr>url = GOOGLE_GEOCODE_URL, params = [(''place_id'', pid), (''key'', ''key-1'')],
      headers = []\<rparr>"

definition autocomplete_req :: "string \<Rightarrow> request" where
  "autocomplete_req query =
     \<lparr>url = GOOGLE_AUTOCOMPLETE_URL,
      params = [(''input'', query), (''language'', ''es''), (''types'', ''geocode''),
                (''key'', ''key-1''), (''components'', ''country:CO''),
                (''locationbias'', GOOGLE_LOCATIONBIAS)],
      headers = []\<rparr>"

definition google_candidate :: "string \<Rightarrow> string \<Rightarrow> GeocodeResult" where
  "google_candidate pid description =
     \<lparr>id' = Str pid, label = Str description, lat = Num (Fin (93 / 20)),
      lng = Num (Fin (- 1481 / 20)), raw = google_place pid ''Bogota'',
      provider = Google, placeId = Str pid\<rparr>"

definition nominatim_place :: "rat \<Rightarrow> string \<Rightarrow> string \<Rightarrow> string \<Rightarrow> jsval" where
  "nominatim_place pid name la lo =
     Obj [(''place_id'', Num (Fin pid)), (''lat'', Str la), (''lon'', Str lo),
          (''display_name'', Str name)]"


definition two_places :: "jsval list" where
  "two_places =
     [nominatim_place 98765 ''Carrera 7 72-41, Bogota'' ''4.6561'' ''-74.0565'',
      nominatim_place 98123 ''Carrera 7 72-13, Bogota'' ''4.6559'' ''-74.0567'']"



section \<open>Evaluation lemmas\<close>

lemmas js_defs =
  truthy_def nullish_def coalesce_def get_prop_def opt_prop_def lookup_def index0_def
  opt_toString_def to_number_def

lemmas run_defs =
  resolveProvider_def configured_def getNominatimEmail_def fetch_def ok_def
  nominatim_headers_def buildUserAgent_def NOMINATIM_BASE_def

lemma number_to_string_samples:
  "number_to_string rt (Fin 0) = ''0''"
  "number_to_string rt (Fin 1) = ''1''"
  "number_to_string rt (Fin 5) = ''5''"
  "number_to_string rt (Fin 98765) = ''98765''"
  by (simp_all add: number_to_string_def is_integer_def decimal.simps digit_def)

text \<open>
  The two sample doubles are the ones nearest to the decimal literals: each is a 53-bit
  significand over the power of two of its binade, less than half a unit in the last
  place away from the decimal value.
\<close>

lemma double_literals:
  "double_4_6486 = 5233858306948622 / 2 ^ 50 \<and> \<bar>double_4_6486 - 46486 / 10000\<bar> < 1 / 2 ^ 51 \<and>
   double_m74_0628 = - 5211706226281493 / 2 ^ 46 \<and> \<bar>double_m74_0628 + 740628 / 10000\<bar> < 1 / 2 ^ 47"
  unfolding double_4_6486_def double_m74_0628_def by simp



subsection \<open>Promises and the detail phase\<close>

lemma first_rejection_None:
  "first_rejection sched settled = None \<longleftrightarrow> (\<forall>i<length settled. \<not> isl (settled ! i))"
  by (auto simp: first_rejection_def find_None_iff)


lemma first_rejection_first:
  assumes "first_rejection sched settled = Some j"
  shows "\<exists>k < length (sched @ [0..<length settled]).
           (sched @ [0..<length settled]) ! k = j \<and>
           (\<forall>k' < k. \<not> ((sched @ [0..<length settled]) ! k' < length settled
                          \<and> isl (settled ! ((sched @ [0..<length settled]) ! k'))))"
  using assms unfolding first_rejection_def find_Some_iff by blast

lemma promise_all_Inr:
  "promise_all sched settled = Inr cs \<longleftrightarrow> settled = map Inr cs"
proof
  assume a: "promise_all sched settled = Inr cs"
  then have n: "first_rejection sched settled = None" and c: "cs = map projr settled"
    by (auto simp: promise_all_def split: option.splits)
  from n have "\<forall>i<length settled. \<not> isl (settled ! i)" by (simp add: first_rejection_None)
  then have "\<forall>i<length settled. settled ! i = Inr (projr (settled ! i))"
    by (metis sum.collapse(2))
  with c show "settled = map Inr cs" by (simp add: list_eq_iff_nth_eq)
next
  assume "settled = map Inr cs"
  then have "first_rejection sched settled = None" "map projr settled = cs"
    by (simp_all add: first_rejection_None comp_def)
  then show "promise_all sched settled = Inr cs" by (simp add: promise_all_def)
qed




lemma geocodePromises_prefix:
  "geocodePromises rt net sent k preds = (settled, sent') \<Longrightarrow> \<exists>ext. sent' = sent @ ext"
proof (induction preds arbitrary: sent settled sent')
  case Nil
  then show ?case by simp
next
  case (Cons p preds)
  show ?case
  proof (cases "detail_request rt k p")
    case (Inl e)
    with Cons.prems obtain s' where "geocodePromises rt net sent k preds = (s', sent')"
      by (auto split: prod.splits)
    then show ?thesis by (rule Cons.IH)
  next
    case (Inr req)
    with Cons.prems obtain s' where "geocodePromises rt net (sent @ [req]) k preds = (s', sent')"
      by (auto simp: fetch_def split: prod.splits)
    then have "\<exists>ext. sent' = (sent @ [req]) @ ext" by (rule Cons.IH)
    then show ?thesis by auto
  qed
qed


text \<open>When every promise is fulfilled, promise \<open>i\<close> made request \<open>i\<close> of the phase.\<close>

lemma geocodePromises_fulfilled:
  "geocodePromises rt net sent k preds = (map Inr cs, sent') \<Longrightarrow>
   length sent' = length sent + length preds \<and> length cs = length preds \<and>
   (\<forall>i<length preds.
      detail_request rt k (preds ! i) = Inr (sent' ! (length sent + i)) \<and>
      detail_result (preds ! i) (net (length sent + i) (sent' ! (length sent + i)))
        = Inr (cs ! i))"
proof (induction preds arbitrary: sent cs sent')
  case Nil
  then show ?case by simp
next
  case (Cons p preds)
  show ?case
  proof (cases "detail_request rt k p")
    case (Inl e)
    with Cons.prems show ?thesis by (auto split: prod.splits)
  next
    case (Inr req)
    with Cons.prems obtain s' where
      s': "geocodePromises rt net (sent @ [req]) k preds = (s', sent')"
      and st: "map Inr cs = detail_result p (net (length sent) req) # s'"
      by (auto simp: fetch_def split: prod.splits)
    from st obtain c cs' where cs: "cs = c # cs'" "detail_result p (net (length sent) req) = Inr c"
      "s' = map Inr cs'" by (cases cs) auto
    from s' cs(3) have g: "geocodePromises rt net (sent @ [req]) k preds = (map Inr cs', sent')"
      by simp
    note ih = Cons.IH [OF g]
    from geocodePromises_prefix [OF s'] obtain ext where ext: "sent' = (sent @ [req]) @ ext" ..
    then have r0: "sent' ! length sent = req" by (simp add: nth_append)
    have "\<forall>i<length (p # preds).
      detail_request rt k ((p # preds) ! i) = Inr (sent' ! (length sent + i)) \<and>
      detail_result ((p # preds) ! i) (net (length sent + i) (sent' ! (length sent + i)))
        = Inr (cs ! i)"
    proof (intro allI impI)
      fix i assume i: "i < length (p # preds)"
      show "detail_request rt k ((p # preds) ! i) = Inr (sent' ! (length sent + i)) \<and>
        detail_result ((p # preds) ! i) (net (length sent + i) (sent' ! (length sent + i)))
          = Inr (cs ! i)"
      proof (cases i)
        case 0
        with Inr cs r0 show ?thesis by simp
      next
        case (Suc i')
        with i have "i' < length preds" by simp
        with ih have "detail_request rt k (preds ! i') = Inr (sent' ! (length (sent @ [req]) + i'))
          \<and> detail_result (preds ! i') (net (length (sent @ [req]) + i')
               (sent' ! (length (sent @ [req]) + i'))) = Inr (cs' ! i')" by blast
        with Suc cs(1) show ?thesis by simp
      qed
    qed
    with ih cs(1) show ?thesis by simp
  qed
qed

lemma encodeQuery_autocomplete:
  "encodeQuery rt
     [(''input'', Str query), (''language'', Str ''es''), (''types'', Str ''geocode''),
      (''key'', Str apiKey), (''components'', Str ''country:CO''),
      (''locationbias'', Str GOOGLE_LOCATIONBIAS)]
   = Inr [(''input'', query), (''language'', ''es''), (''types'', ''geocode''),
          (''key'', apiKey), (''components'', ''country:CO''),
          (''locationbias'', GOOGLE_LOCATIONBIAS)]"
  by simp

lemma truthy_length_Arr: "truthy (opt_prop (Arr items) ''length'') \<longleftrightarrow> items \<noteq> []"
  by (simp add: truthy_def opt_prop_def get_prop_def)

text \<open>
  The runs of \<^verbatim>\<open>searchWithGoogle\<close>: it stops before any request, or after the prediction
  request with an error or the empty sequence, or it runs the detail phase on the
  predictions it retained and returns what \<^verbatim>\<open>Promise.all\<close> settles with.
\<close>

lemma searchWithGoogle_runs:
  assumes "searchWithGoogle rt ev net sent sched query limit = (res, sent')"
  shows "(sent' = sent \<and> isl res)
       \<or> (\<exists>req0. sent' = sent @ [req0] \<and>
             (isl res \<or>
              res = Inr [] \<and>
              (\<exists>resp0 payload.
                 net (length sent) req0 = Inr resp0 \<and> body resp0 = Some payload \<and>
                 \<not> truthy (opt_prop (coalesce (opt_prop payload ''predictions'') (Arr []))
                             ''length''))))
       \<or> (\<exists>apiKey req0 resp0 payload items settled.
             VITE_GOOGLE_KEY ev = Some apiKey \<and> net (length sent) req0 = Inr resp0 \<and>
             body resp0 = Some payload \<and> opt_prop payload ''predictions'' = Arr items \<and>
             items \<noteq> [] \<and>
             geocodePromises rt net (sent @ [req0]) apiKey (slice_to items limit)
               = (settled, sent') \<and>
             res = promise_all sched settled)"
  using assms
  unfolding searchWithGoogle_def encodeQuery_autocomplete fetch_def Let_def
  apply (auto simp: coalesce_def truthy_length_Arr
      split: option.splits if_splits sum.splits prod.splits jsval.splits)
         apply blast+
  done


lemma detail_result_Inr:
  assumes "detail_result p outcome = Inr c"
  shows "id' c = opt_prop p ''place_id'' \<and> label c = opt_prop p ''description'' \<and>
         placeId c = opt_prop p ''place_id'' \<and> provider c = Google \<and>
         (\<exists>r payload. outcome = Inr r \<and> ok r \<and> body r = Some payload \<and>
            get_prop payload ''status'' = Inr (Str ''OK'') \<and>
            index0 (opt_prop payload ''results'') = Inr (raw c))"
  using assms
  by (auto simp: detail_result_def split: sum.splits option.splits if_splits)

lemma map_result_all2:
  "map_result f xs = Inr ys \<longleftrightarrow> list_all2 (\<lambda>x y. f x = Inr y) xs ys"
proof (induction xs arbitrary: ys)
  case Nil
  then show ?case by auto
next
  case (Cons x xs)
  show ?case
    by (cases "f x"; cases "map_result f xs")
      (auto simp: list_all2_Cons1 Cons.IH [symmetric])
qed

lemma map_result_Inr:
  "map_result f xs = Inr ys \<longleftrightarrow>
   length ys = length xs \<and> (\<forall>i<length xs. f (xs ! i) = Inr (ys ! i))"
  by (auto simp: map_result_all2 list_all2_conv_all_nth)

lemma nominatim_item_Inr:
  assumes "nominatim_item rt item = Inr c"
  shows "raw c = item \<and> provider c = Nominatim \<and> nominatim_id rt item = Inr (id' c) \<and>
         label c = opt_prop item ''display_name''"
  using assms by (auto simp: nominatim_item_def split: sum.splits)

text \<open>The successful runs of \<^verbatim>\<open>searchWithNominatim\<close>.\<close>

lemma searchWithNominatim_Inr:
  assumes "searchWithNominatim rt ev net sent query limit = (Inr cs, sent')"
  shows "\<exists>req resp items.
           net (length sent) req = Inr resp \<and> ok resp \<and> body resp = Some (Arr items) \<and>
           sent' = sent @ [req] \<and> map_result (nominatim_item rt) items = Inr cs"
  using assms
  by (auto simp: searchWithNominatim_def fetch_def array_map_def
      split: sum.splits option.splits if_splits prod.splits jsval.splits)

lemma searchWithGoogle_any_order:
  assumes "searchWithGoogle rt ev net sent sched query limit = (Inr cs, sent')"
  shows "searchWithGoogle rt ev net sent sched' query limit = (Inr cs, sent')"
  using assms
  unfolding searchWithGoogle_def encodeQuery_autocomplete fetch_def Let_def
  by (auto simp: promise_all_Inr split: option.splits if_splits sum.splits prod.splits jsval.splits)

text \<open>The successful runs of \<^verbatim>\<open>searchWithGoogle\<close>.\<close>

lemma searchWithGoogle_Inr:
  assumes run: "searchWithGoogle rt ev net sent sched query limit = (Inr cs, sent')"
  shows "\<exists>apiKey req0 resp0 payload.
      VITE_GOOGLE_KEY ev = Some apiKey \<and>
      net (length sent) req0 = Inr resp0 \<and> body resp0 = Some payload \<and>
      (cs = [] \<and> sent' = sent @ [req0] \<and>
       \<not> truthy (opt_prop (coalesce (opt_prop payload ''predictions'') (Arr [])) ''length'')
       \<or> (\<exists>items sliced.
             opt_prop payload ''predictions'' = Arr items \<and>
             sliced = slice_to items limit \<and>
             length cs = length sliced \<and>
             length sent' = length sent + 1 + length sliced \<and>
             (\<forall>i<length sliced.
                id' (cs ! i) = opt_prop (sliced ! i) ''place_id'' \<and>
                label (cs ! i) = opt_prop (sliced ! i) ''description'' \<and>
                detail_request rt apiKey (sliced ! i) = Inr (sent' ! (length sent + 1 + i)) \<and>
                detail_result (sliced ! i)
                    (net (length sent + 1 + i) (sent' ! (length sent + 1 + i)))
                  = Inr (cs ! i))))"
proof -
  from searchWithGoogle_runs [OF run]
  consider
    (empty) req0 resp0 payload where "sent' = sent @ [req0]" "cs = []"
      "net (length sent) req0 = Inr resp0" "body resp0 = Some payload"
      "\<not> truthy (opt_prop (coalesce (opt_prop payload ''predictions'') (Arr [])) ''length'')"
  | (details) apiKey req0 resp0 payload items settled where
      "VITE_GOOGLE_KEY ev = Some apiKey" "net (length sent) req0 = Inr resp0"
      "body resp0 = Some payload" "opt_prop payload ''predictions'' = Arr items"
      "geocodePromises rt net (sent @ [req0]) apiKey (slice_to items limit) = (settled, sent')"
      "Inr cs = promise_all sched settled"
    by auto
  then show ?thesis
  proof cases
    case empty
    from run obtain apiKey where "VITE_GOOGLE_KEY ev = Some apiKey"
      by (auto simp: searchWithGoogle_def split: option.splits)
    with empty show ?thesis by blast
  next
    case details
    from details(6) have "promise_all sched settled = Inr cs" by simp
    then have "settled = map Inr cs" by (simp add: promise_all_Inr)
    with details(5) have
      "geocodePromises rt net (sent @ [req0]) apiKey (slice_to items limit) = (map Inr cs, sent')"
      by simp
    from geocodePromises_fulfilled [OF this]
    have f: "length sent' = length sent + 1 + length (slice_to items limit)"
      "length cs = length (slice_to items limit)"
      "\<forall>i<length (slice_to items limit).
         detail_request rt apiKey (slice_to items limit ! i) = Inr (sent' ! (length sent + 1 + i)) \<and>
         detail_result (slice_to items limit ! i)
             (net (length sent + 1 + i) (sent' ! (length sent + 1 + i))) = Inr (cs ! i)"
      by simp_all
    from f(3) have "\<forall>i<length (slice_to items limit).
         id' (cs ! i) = opt_prop (slice_to items limit ! i) ''place_id'' \<and>
         label (cs ! i) = opt_prop (slice_to items limit ! i) ''description''"
      using detail_result_Inr by blast
    with f details(1-4) show ?thesis by blast
  qed
qed

subsection \<open>The sample searches\<close>

lemma slice_to_5_of_3: "slice_to [a, b, c] (Fin 5) = [a, b, c]"
  by (simp add: slice_to_def)

lemma detail_request_sample:
  "detail_request rt ''key-1'' (google_prediction pid d) = Inr (detail_req pid)"
  by (simp add: detail_request_def google_prediction_def get_prop_def lookup_def detail_req_def)

lemma detail_result_sample:
  "detail_result (google_prediction pid d)
     (Inr (resp_200 (google_geocoded [google_place pid ''Bogota''])))
   = Inr (google_candidate pid d)"
  by (simp add: detail_result_def resp_200_def ok_def google_geocoded_def google_place_def
      google_prediction_def google_candidate_def js_defs)


lemma resp_200_simps: "ok (resp_200 p)" "body (resp_200 p) = Some p"
  by (simp_all add: resp_200_def ok_def)

lemma three_predictions_simps:
  "get_prop three_predictions ''status'' = Inr (Str ''OK'')"
  "opt_prop three_predictions ''predictions'' =
     Arr [google_prediction ''ChIJ-a'' ''Carrera 7 #72-41, Bogota'',
          google_prediction ''ChIJ-b'' ''Carrera 7 #72-13, Bogota'',
          google_prediction ''ChIJ-c'' ''Carrera 7 #72-64, Bogota'']"
  by (simp_all add: three_predictions_def js_defs)

lemma google_net_0: "google_net predictions failing 0 req = Inr (resp_200 predictions)"
  by (simp add: google_net_def)

lemma google_net_detail:
  "0 < n \<Longrightarrow> google_net predictions failing n (detail_req pid) =
     (if n \<in> set failing then Inr resp_500
      else Inr (resp_200 (google_geocoded [google_place pid ''Bogota''])))"
  by (simp add: google_net_def detail_req_def)



lemma encodeQuery_search_nominatim:
  "encodeQuery rt
     [(''q'', Str query), (''format'', Str ''jsonv2''), (''addressdetails'', Num (Fin 1)),
      (''limit'', Num limit), (''viewbox'', Str NOMINATIM_VIEWBOX), (''bounded'', Num (Fin 1)),
      (''city'', Str city), (''country'', Str ''Colombia''), (''dedupe'', Num (Fin 1)),
      (''polygon_geojson'', Num (Fin 0)), (''extratags'', Num (Fin 0))]
   = Inr [(''q'', query), (''format'', ''jsonv2''), (''addressdetails'', ''1''),
          (''limit'', number_to_string rt limit), (''viewbox'', NOMINATIM_VIEWBOX),
          (''bounded'', ''1''), (''city'', city), (''country'', ''Colombia''),
          (''dedupe'', ''1''), (''polygon_geojson'', ''0''), (''extratags'', ''0'')]"
  by (simp add: number_to_string_samples)

lemma nominatim_item_place:
  "is_integer pid \<Longrightarrow> 0 \<le> pid \<Longrightarrow> pid < 10 ^ 21 \<Longrightarrow>
   nominatim_item rt (nominatim_place pid name la lo)
   = Inr \<lparr>id' = Str (decimal (nat \<lfloor>pid\<rfloor>)), label = Str name,
           lat = Num (parse_number rt la), lng = Num (parse_number rt lo),
           raw = nominatim_place pid name la lo, provider = Nominatim, placeId = Undefined\<rparr>"
  by (simp add: nominatim_item_def nominatim_id_def nominatim_place_def js_defs
      number_to_string_def)

lemma run_two_places:
  "searchAddress rt0 env_both (net_always (resp_200 (Arr two_places))) [] sched
     ''Cra 7 # 72'' (Some Nominatim) None
   = (Inr [\<lparr>id' = Str ''98765'', label = Str ''Carrera 7 72-41, Bogota'',
            lat = Num NaN, lng = Num NaN, raw = two_places ! 0, provider = Nominatim,
            placeId = Undefined\<rparr>,
           \<lparr>id' = Str ''98123'', label = Str ''Carrera 7 72-13, Bogota'',
            lat = Num NaN, lng = Num NaN, raw = two_places ! 1, provider = Nominatim,
            placeId = Undefined\<rparr>],
      [\<lparr>url = ''https://nominatim.openstreetmap.org/search'',
        params = [(''q'', ''Cra 7 # 72''), (''format'', ''jsonv2''), (''addressdetails'', ''1''),
                  (''limit'', ''5''), (''viewbox'', NOMINATIM_VIEWBOX), (''bounded'', ''1''),
                  (''city'', ''Bogot'' @ a_acute), (''country'', ''Colombia''),
                  (''dedupe'', ''1''), (''polygon_geojson'', ''0''), (''extratags'', ''0'')],
        headers = [(''User-Agent'', ''GeoBogota/1.0 (ops@example.org)''),
                   (''Accept-Language'', ''es''), (''Referer'', ''https://example.org''),
                   (''From'', ''ops@example.org'')]\<rparr>])"
proof -
  have t: "trim ''Cra 7 # 72'' \<noteq> []" by (simp add: trim_def is_space_def)
  have d: "decimal 98765 = ''98765''" "decimal 98123 = ''98123''"
    by (simp_all add: decimal.simps digit_def)
  show ?thesis
    using t
    by (simp add: searchAddress_def Let_def DEFAULT_LIMIT_def searchWithNominatim_def
        encodeQuery_search_nominatim resolveProvider_def getNominatimEmail_def fetch_def
        nominatim_headers_def buildUserAgent_def NOMINATIM_BASE_def env_both_def net_always_def resp_200_simps
        array_map_def two_places_def nominatim_item_place is_integer_def d rt0_def
        number_to_string_samples
        del: encodeQuery.simps)
qed

lemma run_details_ok:
  assumes "length sent0 = 1"
  shows "geocodePromises rt (google_net three_predictions []) sent0 ''key-1''
     [google_prediction ''ChIJ-a'' ''Carrera 7 #72-41, Bogota'',
      google_prediction ''ChIJ-b'' ''Carrera 7 #72-13, Bogota'',
      google_prediction ''ChIJ-c'' ''Carrera 7 #72-64, Bogota'']
   = ([Inr (google_candidate ''ChIJ-a'' ''Carrera 7 #72-41, Bogota''),
       Inr (google_candidate ''ChIJ-b'' ''Carrera 7 #72-13, Bogota''),
       Inr (google_candidate ''ChIJ-c'' ''Carrera 7 #72-64, Bogota'')],
      sent0 @ [detail_req ''ChIJ-a'', detail_req ''ChIJ-b'', detail_req ''ChIJ-c''])"
  using assms
  by (simp add: detail_request_sample fetch_def google_net_detail detail_result_sample)

lemma run_three_ok:
  "searchAddress rt0 env_both (google_net three_predictions []) [] sched ''Cra 7 # 72'' None None
   = (Inr [google_candidate ''ChIJ-a'' ''Carrera 7 #72-41, Bogota'',
           google_candidate ''ChIJ-b'' ''Carrera 7 #72-13, Bogota'',
           google_candidate ''ChIJ-c'' ''Carrera 7 #72-64, Bogota''],
      [autocomplete_req ''Cra 7 # 72'', detail_req ''ChIJ-a'', detail_req ''ChIJ-b'',
       detail_req ''ChIJ-c''])"
proof -
  have t: "trim ''Cra 7 # 72'' \<noteq> []" by (simp add: trim_def is_space_def)
  have p: "promise_all sched
       [Inr (google_candidate ''ChIJ-a'' ''Carrera 7 #72-41, Bogota''),
        Inr (google_candidate ''ChIJ-b'' ''Carrera 7 #72-13, Bogota''),
        Inr (google_candidate ''ChIJ-c'' ''Carrera 7 #72-64, Bogota'')]
     = Inr [google_candidate ''ChIJ-a'' ''Carrera 7 #72-41, Bogota'',
            google_candidate ''ChIJ-b'' ''Carrera 7 #72-13, Bogota'',
            google_candidate ''ChIJ-c'' ''Carrera 7 #72-64, Bogota'']"
    by (simp add: promise_all_Inr)
  show ?thesis
    using t
    by (simp add: searchAddress_def Let_def DEFAULT_LIMIT_def resolveProvider_def configured_def
        env_both_def searchWithGoogle_def fetch_def google_net_0 resp_200_simps
        three_predictions_simps coalesce_def nullish_def truthy_length_Arr slice_to_5_of_3
        run_details_ok p autocomplete_req_def
        del: geocodePromises.simps)
qed

lemma googleStatusMessage_table:
  "distinct (map googleStatusMessage
      [Str ''ZERO_RESULTS'', Str ''OVER_QUERY_LIMIT'', Str ''REQUEST_DENIED'',
       Str ''INVALID_REQUEST'', Str ''UNKNOWN_ERROR'', Undefined])"
  by (simp add: googleStatusMessage_def a_acute_def o_acute_def i_acute_def u_acute_def)

subsection \<open>Identifiers\<close>















section \<open>Provider resolution\<close>

text \<open>
  C4. The resolver returns an explicit preference unchanged, whatever the environment
  holds (so also when the commercial credential is absent); without a preference it
  returns the commercial provider exactly when \<^verbatim>\<open>VITE_GOOGLE_KEY\<close> is set to a non-empty
  string, and the free provider otherwise. It is a total function of the environment
  and the preference into \<open>Provider\<close>: it has no error result and touches no request log.
\<close>

theorem resolveProvider_spec:
  "resolveProvider ev (Some p) = p \<and>
   resolveProvider ev None = (if configured (VITE_GOOGLE_KEY ev) then Google else Nominatim)"
  by (simp add: resolveProvider_def)

theorem resolveProvider_spec_witness:
  "resolveProvider env_none (Some Google) = Google \<and>
   resolveProvider env_none None = Nominatim \<and>
   resolveProvider env_both None = Google \<and>
   resolveProvider env_both (Some Nominatim) = Nominatim"
  using resolveProvider_spec [of env_none Google] resolveProvider_spec [of env_both Nominatim]
  by (simp add: env_none_def env_both_def configured_def)

section \<open>Forward search: blank queries and missing credentials\<close>

text \<open>
  C10. A query whose trimmed form is empty gives the empty sequence and leaves the
  request log as it was, for every environment and preference: no request is made and no
  credential is looked at, so no configuration error arises even without credentials.
\<close>

theorem searchAddress_blank:
  "trim query = [] \<Longrightarrow>
   searchAddress rt ev net sent sched query preferred limit_opt = (Inr [], sent)"
  by (simp add: searchAddress_def Let_def)

theorem searchAddress_blank_witness:
  "trim ''   '' = [] \<and>
   searchAddress rt0 env_none net_down [] [] ''   '' (Some Google) None = (Inr [], []) \<and>
   searchAddress rt0 env_none net_down [] [] ''   '' None None = (Inr [], [])"
proof -
  have t: "trim ''   '' = []" by (simp add: trim_def is_space_def)
  show ?thesis
    using t searchAddress_blank [OF t, of rt0 env_none net_down "[]" "[]" "Some Google" None]
      searchAddress_blank [OF t, of rt0 env_none net_down "[]" "[]" None None]
    by simp
qed

text \<open>
  C2. For a query whose trimmed form is not empty, a search dispatched to the free
  provider without \<^verbatim>\<open>VITE_NOMINATIM_EMAIL\<close>, or to the commercial provider without
  \<^verbatim>\<open>VITE_GOOGLE_KEY\<close>, throws that provider's configuration error, and the request log is
  unchanged: nothing was sent.
\<close>

theorem searchAddress_unconfigured:
  assumes "trim query \<noteq> []"
  shows "(resolveProvider ev preferred = Nominatim \<and> \<not> configured (VITE_NOMINATIM_EMAIL ev)
            \<longrightarrow> searchAddress rt ev net sent sched query preferred limit_opt
                  = (Inl (Error msg_no_email), sent))
       \<and> (resolveProvider ev preferred = Google \<and> \<not> configured (VITE_GOOGLE_KEY ev)
            \<longrightarrow> searchAddress rt ev net sent sched query preferred limit_opt
                  = (Inl (Error msg_no_key), sent))"
  using assms
  by (auto simp: searchAddress_def Let_def searchWithNominatim_def searchWithGoogle_def
      getNominatimEmail_def configured_def split: option.splits)

theorem searchAddress_unconfigured_witness:
  "trim ''Cra 7 # 72-41'' \<noteq> [] \<and>
   searchAddress rt0 env_none net_down [] [] ''Cra 7 # 72-41'' None None
     = (Inl (Error msg_no_email), []) \<and>
   searchAddress rt0 env_none net_down [] [] ''Cra 7 # 72-41'' (Some Google) None
     = (Inl (Error msg_no_key), [])"
proof -
  have t: "trim ''Cra 7 # 72-41'' \<noteq> []" by (simp add: trim_def is_space_def)
  show ?thesis
    using t searchAddress_unconfigured [OF t, of env_none None rt0 net_down "[]" "[]" None]
      searchAddress_unconfigured [OF t, of env_none "Some Google" rt0 net_down "[]" "[]" None]
    by (simp add: resolveProvider_def env_none_def configured_def)
qed

section \<open>Reverse lookup\<close>






text \<open>
  C9. A commercial-provider reverse lookup that returns a candidate returns the input
  latitude and longitude as the candidate's coordinates, whatever location the response
  holds, and its label is the \<^verbatim>\<open>formatted_address\<close> of \<^verbatim>\<open>results[0]\<close> of the payload
  the network answered with: of the first element when \<^verbatim>\<open>results\<close> is an array.
\<close>

theorem reverseWithGoogle_echo:
  assumes "resolveProvider ev preferred = Google"
    and "reverseGeocode rt ev net sent la lo preferred = (Inr (Some c), sent')"
  shows "lat c = Num la \<and> lng c = Num lo \<and>
         (\<exists>req resp payload result.
            net (length sent) req = Inr resp \<and> body resp = Some payload \<and>
            sent' = sent @ [req] \<and>
            index0 (opt_prop payload ''results'') = Inr result \<and>
            label c = opt_prop result ''formatted_address'' \<and>
            (\<forall>r rs. opt_prop payload ''results'' = Arr (r # rs)
               \<longrightarrow> label c = opt_prop r ''formatted_address''))"
  using assms
  apply (auto simp: reverseGeocode_def reverseWithGoogle_def fetch_def Let_def
      split: option.splits if_splits sum.splits)
  apply (rule exI, rule exI, rule conjI, assumption)
  apply (auto simp: index0_def)
  done

lemma run_google_reverse:
  "reverseGeocode rt0 env_both
     (net_always (resp_200 (google_geocoded
        [google_place ''ChIJ-a'' ''Cra. 7 #72-41, Bogota'',
         google_place ''ChIJ-b'' ''Calle 72, Bogota''])))
     [] (Fin double_4_6486) (Fin double_m74_0628) None
   = (Inr (Some \<lparr>id' = Str ''ChIJ-a'', label = Str ''Cra. 7 #72-41, Bogota'',
                  lat = Num (Fin double_4_6486), lng = Num (Fin double_m74_0628),
                  raw = google_place ''ChIJ-a'' ''Cra. 7 #72-41, Bogota'',
                  provider = Google, placeId = Str ''ChIJ-a''\<rparr>),
      [\<lparr>url = GOOGLE_GEOCODE_URL,
        params = [(''latlng'', number_to_string rt0 (Fin double_4_6486) @ '','' @
                                number_to_string rt0 (Fin double_m74_0628)),
                  (''key'', ''key-1''), (''language'', ''es'')],
        headers = []\<rparr>])"
  by (simp add: reverseGeocode_def reverseWithGoogle_def run_defs js_defs
      env_both_def net_always_def resp_200_def google_geocoded_def google_place_def)

theorem reverseWithGoogle_echo_witness:
  "\<exists>c sent'.
     reverseGeocode rt0 env_both
       (net_always (resp_200 (google_geocoded
          [google_place ''ChIJ-a'' ''Cra. 7 #72-41, Bogota'',
           google_place ''ChIJ-b'' ''Calle 72, Bogota''])))
       [] (Fin double_4_6486) (Fin double_m74_0628) None = (Inr (Some c), sent') \<and>
     lat c = Num (Fin double_4_6486) \<and> lng c = Num (Fin double_m74_0628) \<and>
     label c = Str ''Cra. 7 #72-41, Bogota''"
  using reverseWithGoogle_echo [OF _ run_google_reverse]
  by (simp add: run_google_reverse resolveProvider_def)

section \<open>Forward search: the detail phase\<close>



text \<open>
  C3. A successful forward search returns its candidates in the provider's order. With
  the free provider the payload is an array and candidate \<open>i\<close> is made from item \<open>i\<close>
  (it keeps that item as its \<^verbatim>\<open>raw\<close>). With the commercial provider either there are no
  predictions and no candidates, or candidate \<open>i\<close> carries the \<^verbatim>\<open>place_id\<close> and
  \<^verbatim>\<open>description\<close> of retained prediction \<open>i\<close> and is the outcome of that prediction's
  detail call, which is request \<open>i\<close> of the detail phase; and the same result comes out
  under every arrival order \<open>sched'\<close> of the detail responses.
\<close>

theorem searchAddress_order:
  assumes "trim query \<noteq> []"
    and "searchAddress rt ev net sent sched query preferred limit_opt = (Inr cs, sent')"
  shows "(resolveProvider ev preferred = Nominatim \<longrightarrow>
           (\<exists>req resp items.
              net (length sent) req = Inr resp \<and> body resp = Some (Arr items) \<and>
              sent' = sent @ [req] \<and> length cs = length items \<and>
              (\<forall>i<length items.
                 raw (cs ! i) = items ! i \<and> nominatim_item rt (items ! i) = Inr (cs ! i))))
       \<and> (resolveProvider ev preferred = Google \<longrightarrow>
           (\<exists>apiKey req0 resp0 payload.
              VITE_GOOGLE_KEY ev = Some apiKey \<and>
              net (length sent) req0 = Inr resp0 \<and> body resp0 = Some payload \<and>
              (cs = [] \<and> sent' = sent @ [req0] \<and>
               \<not> truthy (opt_prop (coalesce (opt_prop payload ''predictions'') (Arr []))
                           ''length'')
               \<or> (\<exists>items sliced.
                     opt_prop payload ''predictions'' = Arr items \<and>
                     sliced = slice_to items
                                (case limit_opt of None \<Rightarrow> DEFAULT_LIMIT | Some l \<Rightarrow> l) \<and>
                     length cs = length sliced \<and>
                     length sent' = length sent + 1 + length sliced \<and>
                     (\<forall>i<length sliced.
                        id' (cs ! i) = opt_prop (sliced ! i) ''place_id'' \<and>
                        label (cs ! i) = opt_prop (sliced ! i) ''description'' \<and>
                        detail_request rt apiKey (sliced ! i)
                          = Inr (sent' ! (length sent + 1 + i)) \<and>
                        detail_result (sliced ! i)
                            (net (length sent + 1 + i) (sent' ! (length sent + 1 + i)))
                          = Inr (cs ! i))))) \<and>
           (\<forall>sched'. searchAddress rt ev net sent sched' query preferred limit_opt
                        = (Inr cs, sent')))"
proof (intro conjI impI)
  assume "resolveProvider ev preferred = Nominatim"
  with assms obtain limit where
    "searchWithNominatim rt ev net sent query limit = (Inr cs, sent')"
    by (auto simp: searchAddress_def Let_def)
  from searchWithNominatim_Inr [OF this] obtain req resp items where
    r: "net (length sent) req = Inr resp" "body resp = Some (Arr items)" "sent' = sent @ [req]"
    and m: "map_result (nominatim_item rt) items = Inr cs"
    by blast
  from m have "length cs = length items"
    "\<forall>i<length items. nominatim_item rt (items ! i) = Inr (cs ! i)"
    by (simp_all add: map_result_Inr)
  moreover from this have "\<forall>i<length items. raw (cs ! i) = items ! i"
    using nominatim_item_Inr by blast
  ultimately show "\<exists>req resp items.
      net (length sent) req = Inr resp \<and> body resp = Some (Arr items) \<and>
      sent' = sent @ [req] \<and> length cs = length items \<and>
      (\<forall>i<length items.
         raw (cs ! i) = items ! i \<and> nominatim_item rt (items ! i) = Inr (cs ! i))"
    using r by blast
next
  assume g: "resolveProvider ev preferred = Google"
  with assms have "searchWithGoogle rt ev net sent sched query
      (case limit_opt of None \<Rightarrow> DEFAULT_LIMIT | Some l \<Rightarrow> l) = (Inr cs, sent')"
    by (simp add: searchAddress_def Let_def)
  then show "\<exists>apiKey req0 resp0 payload.
      VITE_GOOGLE_KEY ev = Some apiKey \<and>
      net (length sent) req0 = Inr resp0 \<and> body resp0 = Some payload \<and>
      (cs = [] \<and> sent' = sent @ [req0] \<and>
       \<not> truthy (opt_prop (coalesce (opt_prop payload ''predictions'') (Arr [])) ''length'')
       \<or> (\<exists>items sliced.
             opt_prop payload ''predictions'' = Arr items \<and>
             sliced = slice_to items (case limit_opt of None \<Rightarrow> DEFAULT_LIMIT | Some l \<Rightarrow> l) \<and>
             length cs = length sliced \<and>
             length sent' = length sent + 1 + length sliced \<and>
             (\<forall>i<length sliced.
                id' (cs ! i) = opt_prop (sliced ! i) ''place_id'' \<and>
                label (cs ! i) = opt_prop (sliced ! i) ''description'' \<and>
                detail_request rt apiKey (sliced ! i) = Inr (sent' ! (length sent + 1 + i)) \<and>
                detail_result (sliced ! i)
                    (net (length sent + 1 + i) (sent' ! (length sent + 1 + i)))
                  = Inr (cs ! i))))"
    by (rule searchWithGoogle_Inr)
next
  assume g: "resolveProvider ev preferred = Google"
  show "\<forall>sched'. searchAddress rt ev net sent sched' query preferred limit_opt = (Inr cs, sent')"
  proof
    fix sched'
    from g assms have
      "searchWithGoogle rt ev net sent sched query
         (case limit_opt of None \<Rightarrow> DEFAULT_LIMIT | Some l \<Rightarrow> l) = (Inr cs, sent')"
      by (simp add: searchAddress_def Let_def)
    from searchWithGoogle_any_order [OF this] g assms(1)
    show "searchAddress rt ev net sent sched' query preferred limit_opt = (Inr cs, sent')"
      by (simp add: searchAddress_def Let_def)
  qed
qed

theorem searchAddress_order_witness:
  "(\<exists>cs sent'.
      searchAddress rt0 env_both (net_always (resp_200 (Arr two_places))) [] []
        ''Cra 7 # 72'' (Some Nominatim) None = (Inr cs, sent') \<and>
      map raw cs = two_places) \<and>
   (\<exists>cs sent'.
      searchAddress rt0 env_both (google_net three_predictions []) [] [2, 0, 1]
        ''Cra 7 # 72'' None None = (Inr cs, sent') \<and>
      map id' cs = [Str ''ChIJ-a'', Str ''ChIJ-b'', Str ''ChIJ-c''] \<and>
      map label cs = [Str ''Carrera 7 #72-41, Bogota'', Str ''Carrera 7 #72-13, Bogota'',
                      Str ''Carrera 7 #72-64, Bogota''] \<and>
      (\<forall>sched'. searchAddress rt0 env_both (google_net three_predictions []) [] sched'
                   ''Cra 7 # 72'' None None = (Inr cs, sent')))"
proof (intro conjI)
  have t: "trim ''Cra 7 # 72'' \<noteq> []" by (simp add: trim_def is_space_def)
  obtain cs sent' where run:
    "searchAddress rt0 env_both (net_always (resp_200 (Arr two_places))) [] []
       ''Cra 7 # 72'' (Some Nominatim) None = (Inr cs, sent')"
    using run_two_places by blast
  have "resolveProvider env_both (Some Nominatim) = Nominatim"
    by (simp add: resolveProvider_def)
  with searchAddress_order [OF t run] obtain req resp items where
    r: "net_always (resp_200 (Arr two_places)) (length ([] :: request list)) req = Inr resp"
      "body resp = Some (Arr items)"
    and c: "length cs = length items" "\<forall>i<length items. raw (cs ! i) = items ! i"
    by blast
  from r have "items = two_places" by (auto simp: net_always_def resp_200_simps)
  with c have "map raw cs = two_places" by (simp add: list_eq_iff_nth_eq)
  with run show "\<exists>cs sent'.
      searchAddress rt0 env_both (net_always (resp_200 (Arr two_places))) [] []
        ''Cra 7 # 72'' (Some Nominatim) None = (Inr cs, sent') \<and>
      map raw cs = two_places"
    by blast
next
  have t: "trim ''Cra 7 # 72'' \<noteq> []" by (simp add: trim_def is_space_def)
  note run = run_three_ok [of "[2, 0, 1]"]
  have "resolveProvider env_both None = Google"
    by (simp add: resolveProvider_def env_both_def configured_def)
  with searchAddress_order [OF t run] have
    "\<forall>sched'. searchAddress rt0 env_both (google_net three_predictions []) [] sched'
                ''Cra 7 # 72'' None None
       = (Inr [google_candidate ''ChIJ-a'' ''Carrera 7 #72-41, Bogota'',
               google_candidate ''ChIJ-b'' ''Carrera 7 #72-13, Bogota'',
               google_candidate ''ChIJ-c'' ''Carrera 7 #72-64, Bogota''],
          [autocomplete_req ''Cra 7 # 72'', detail_req ''ChIJ-a'', detail_req ''ChIJ-b'',
           detail_req ''ChIJ-c''])"
    by blast
  with run show "\<exists>cs sent'.
      searchAddress rt0 env_both (google_net three_predictions []) [] [2, 0, 1]
        ''Cra 7 # 72'' None None = (Inr cs, sent') \<and>
      map id' cs = [Str ''ChIJ-a'', Str ''ChIJ-b'', Str ''ChIJ-c''] \<and>
      map label cs = [Str ''Carrera 7 #72-41, Bogota'', Str ''Carrera 7 #72-13, Bogota'',
                      Str ''Carrera 7 #72-64, Bogota''] \<and>
      (\<forall>sched'. searchAddress rt0 env_both (google_net three_predictions []) [] sched'
                   ''Cra 7 # 72'' None None = (Inr cs, sent'))"
    by (simp add: google_candidate_def)
qed

section \<open>The status table\<close>

text \<open>
  C5, as the code has it. \<^verbatim>\<open>googleStatusMessage\<close> is called by the commercial forward
  search only, in both of its phases. When the network answers with a success response
  whose payload has status \<open>st\<close>: the prediction phase throws the table's message for
  \<open>st\<close> unless \<open>st\<close> is \<^verbatim>\<open>'OK'\<close> or \<^verbatim>\<open>'ZERO_RESULTS'\<close>; a detail call is rejected with the
  table's message for \<open>st\<close> when \<open>st\<close> is not \<^verbatim>\<open>'OK'\<close> or the results have no length; the
  commercial reverse lookup returns \<^verbatim>\<open>null\<close> when \<open>st\<close> is not \<^verbatim>\<open>'OK'\<close> and throws no
  \<^verbatim>\<open>Error\<close> with a message at all. The table has five statuses of its own (no results,
  quota exceeded, request denied, malformed request, unknown error) and one message for
  every other status, all six different.
\<close>

theorem googleStatusMessage_use:
  assumes "resolveProvider ev preferred = Google" and "configured (VITE_GOOGLE_KEY ev)"
    and "\<And>req. net (length sent) req = Inr resp"
    and "ok resp" and "body resp = Some p" and "get_prop p ''status'' = Inr st"
  shows "(trim query \<noteq> [] \<and> st \<noteq> Str ''OK'' \<and> st \<noteq> Str ''ZERO_RESULTS''
            \<longrightarrow> fst (searchAddress rt ev net sent sched query preferred limit_opt)
                  = Inl (Error (googleStatusMessage st)))
       \<and> (st \<noteq> Str ''OK'' \<or> \<not> truthy (opt_prop (opt_prop p ''results'') ''length'')
            \<longrightarrow> detail_result prediction (Inr resp) = Inl (Error (googleStatusMessage st)))
       \<and> (st \<noteq> Str ''OK''
            \<longrightarrow> fst (reverseGeocode rt ev net sent la lo preferred) = Inr None)
       \<and> (\<forall>m. fst (reverseGeocode rt ev net sent la lo preferred) \<noteq> Inl (Error m))
       \<and> (st \<notin> {Str ''ZERO_RESULTS'', Str ''OVER_QUERY_LIMIT'', Str ''REQUEST_DENIED'',
                  Str ''INVALID_REQUEST'', Str ''UNKNOWN_ERROR''}
            \<longrightarrow> googleStatusMessage st = googleStatusMessage Undefined)
       \<and> distinct (map googleStatusMessage
            [Str ''ZERO_RESULTS'', Str ''OVER_QUERY_LIMIT'', Str ''REQUEST_DENIED'',
             Str ''INVALID_REQUEST'', Str ''UNKNOWN_ERROR'', Undefined])"
proof (intro conjI)
  show "trim query \<noteq> [] \<and> st \<noteq> Str ''OK'' \<and> st \<noteq> Str ''ZERO_RESULTS''
      \<longrightarrow> fst (searchAddress rt ev net sent sched query preferred limit_opt)
            = Inl (Error (googleStatusMessage st))"
    using assms
    unfolding searchAddress_def searchWithGoogle_def encodeQuery_autocomplete fetch_def Let_def
    by (auto simp: configured_def split: option.splits)
  show "st \<noteq> Str ''OK'' \<or> \<not> truthy (opt_prop (opt_prop p ''results'') ''length'')
      \<longrightarrow> detail_result prediction (Inr resp) = Inl (Error (googleStatusMessage st))"
    using assms(4-6) by (auto simp: detail_result_def)
  show "st \<noteq> Str ''OK'' \<longrightarrow> fst (reverseGeocode rt ev net sent la lo preferred) = Inr None"
    using assms
    by (auto simp: reverseGeocode_def reverseWithGoogle_def fetch_def Let_def configured_def
        split: option.splits)
  show "\<forall>m. fst (reverseGeocode rt ev net sent la lo preferred) \<noteq> Inl (Error m)"
    using assms
    by (auto simp: reverseGeocode_def reverseWithGoogle_def fetch_def Let_def configured_def
        index0_def get_prop_def split: option.splits sum.splits jsval.splits)
  show "st \<notin> {Str ''ZERO_RESULTS'', Str ''OVER_QUERY_LIMIT'', Str ''REQUEST_DENIED'',
               Str ''INVALID_REQUEST'', Str ''UNKNOWN_ERROR''}
      \<longrightarrow> googleStatusMessage st = googleStatusMessage Undefined"
    by (simp add: googleStatusMessage_def)
  show "distinct (map googleStatusMessage
      [Str ''ZERO_RESULTS'', Str ''OVER_QUERY_LIMIT'', Str ''REQUEST_DENIED'',
       Str ''INVALID_REQUEST'', Str ''UNKNOWN_ERROR'', Undefined])"
    by (rule googleStatusMessage_table)
qed

text \<open>
  C5 as stated fails for the reverse lookup: a response with status
  \<^verbatim>\<open>OVER_QUERY_LIMIT\<close> gives \<^verbatim>\<open>null\<close>, not the table's quota message.
\<close>

theorem reverseGeocode_status_not_translated:
  "fst (reverseGeocode rt0 env_both (net_always (resp_200 google_over_quota)) []
          (Fin double_4_6486) (Fin double_m74_0628) (Some Google)) = Inr None \<and>
   fst (reverseGeocode rt0 env_both (net_always (resp_200 google_over_quota)) []
          (Fin double_4_6486) (Fin double_m74_0628) (Some Google))
     \<noteq> Inl (Error (googleStatusMessage (Str ''OVER_QUERY_LIMIT'')))"
  by (simp add: reverseGeocode_def reverseWithGoogle_def resolveProvider_def env_both_def
      fetch_def net_always_def resp_200_simps google_over_quota_def get_prop_def lookup_def)

theorem googleStatusMessage_use_witness:
  "fst (searchAddress rt0 env_both (net_always (resp_200 google_over_quota)) [] []
          ''Cra 7 # 72'' None None)
     = Inl (Error (googleStatusMessage (Str ''OVER_QUERY_LIMIT''))) \<and>
   detail_result Null (Inr (resp_200 google_zero_results))
     = Inl (Error (googleStatusMessage (Str ''ZERO_RESULTS''))) \<and>
   fst (reverseGeocode rt0 env_both (net_always (resp_200 google_over_quota)) []
          (Fin double_4_6486) (Fin double_m74_0628) None) = Inr None \<and>
   googleStatusMessage (Str ''NOT_FOUND'') = googleStatusMessage Undefined"
proof -
  have t: "trim ''Cra 7 # 72'' \<noteq> []" by (simp add: trim_def is_space_def)
  have g: "resolveProvider env_both None = Google" "configured (VITE_GOOGLE_KEY env_both)"
    by (simp_all add: resolveProvider_def env_both_def configured_def)
  have n: "\<And>r req. net_always r (length ([] :: request list)) req = Inr r"
    by (simp add: net_always_def)
  have q: "get_prop google_over_quota ''status'' = Inr (Str ''OVER_QUERY_LIMIT'')"
    "get_prop google_zero_results ''status'' = Inr (Str ''ZERO_RESULTS'')"
    by (simp_all add: google_over_quota_def google_zero_results_def get_prop_def lookup_def)
  note u = googleStatusMessage_use
    [where ev = env_both and preferred = None and sent = "[]" and rt = rt0 and sched = "[]"
       and query = "''Cra 7 # 72''" and limit_opt = None and prediction = Null
       and la = "Fin double_4_6486" and lo = "Fin double_m74_0628"]
  note a = u [where net = "net_always (resp_200 google_over_quota)"
      and resp = "resp_200 google_over_quota" and p = google_over_quota
      and st = "Str ''OVER_QUERY_LIMIT''"]
  note b = u [where net = "net_always (resp_200 google_zero_results)"
      and resp = "resp_200 google_zero_results" and p = google_zero_results
      and st = "Str ''ZERO_RESULTS''"]
  note c = u [where net = "net_always (resp_200 (Obj [(''status'', Str ''NOT_FOUND'')]))"
      and resp = "resp_200 (Obj [(''status'', Str ''NOT_FOUND'')])"
      and p = "Obj [(''status'', Str ''NOT_FOUND'')]" and st = "Str ''NOT_FOUND''"]
  from a b c t g n q show ?thesis
    by (simp add: resp_200_simps get_prop_def lookup_def)
qed

section \<open>Identifiers of a batch\<close>




end
